theory Spec2Isabelle
  imports Complex_Main "HOL-Library.Sublist" "HOL-Library.Monad_Syntax"
begin

section \<open>Text primitives of the JavaScript source\<close>

text \<open>
  Questions and plan expressions are JavaScript strings. They are modelled as lists of
  8-bit characters read as Latin-1 code units; every pattern of the source is ASCII. The
  character classes below are the ones the regular expressions of the source use without
  the unicode flag: \<open>\d\<close>, \<open>\w\<close>, \<open>\s\<close>, \<open>[A-Za-z]\<close> and the line terminators that
  \<open>.\<close> refuses.
\<close>

definition is_digit :: "char \<Rightarrow> bool" where
  "is_digit c = (c \<in> set ''0123456789'')"

definition is_upper :: "char \<Rightarrow> bool" where
  "is_upper c = (c \<in> set ''ABCDEFGHIJKLMNOPQRSTUVWXYZ'')"

definition is_lower :: "char \<Rightarrow> bool" where
  "is_lower c = (c \<in> set ''abcdefghijklmnopqrstuvwxyz'')"

definition is_letter :: "char \<Rightarrow> bool" where
  "is_letter c = (is_upper c \<or> is_lower c)"

definition is_word :: "char \<Rightarrow> bool" where
  "is_word c = (is_letter c \<or> is_digit c \<or> c = CHR ''_'')"

definition is_space :: "char \<Rightarrow> bool" where
  "is_space c = (c \<in> set [CHR 0x09, CHR 0x0A, CHR 0x0B, CHR 0x0C, CHR 0x0D, CHR 0x20, CHR 0xA0])"

definition is_line_terminator :: "char \<Rightarrow> bool" where
  "is_line_terminator c = (c = CHR 0x0A \<or> c = CHR 0x0D)"

text \<open>
  \<open>toLowerCase\<close> and \<open>toUpperCase\<close>. Only the ASCII letters are mapped: a Latin-1
  letter outside ASCII is no word character and equals no character of a pattern of the
  source before or after the conversion, so its case is never observed.
\<close>

definition to_lower :: "char \<Rightarrow> char" where
  "to_lower c =
     (case map_of (zip ''ABCDEFGHIJKLMNOPQRSTUVWXYZ'' ''abcdefghijklmnopqrstuvwxyz'') c of
        Some d \<Rightarrow> d
      | None \<Rightarrow> c)"

definition to_upper :: "char \<Rightarrow> char" where
  "to_upper c =
     (case map_of (zip ''abcdefghijklmnopqrstuvwxyz'' ''ABCDEFGHIJKLMNOPQRSTUVWXYZ'') c of
        Some d \<Rightarrow> d
      | None \<Rightarrow> c)"

definition toLowerCase :: "string \<Rightarrow> string" where
  "toLowerCase s = map to_lower s"

text \<open>\<open>s.includes(n)\<close>: \<open>n\<close> occurs in \<open>s\<close> as a contiguous substring.\<close>

fun str_includes :: "string \<Rightarrow> string \<Rightarrow> bool" where
  "str_includes [] n = (n = [])"
| "str_includes (c # cs) n = (if prefix n (c # cs) then True else str_includes cs n)"

text \<open>\<open>s.trim()\<close>: white space removed at both ends.\<close>

definition trim :: "string \<Rightarrow> string" where
  "trim s = rev (dropWhile is_space (rev (dropWhile is_space s)))"

text \<open>\<open>xs.join(sep)\<close>.\<close>

fun join :: "string \<Rightarrow> string list \<Rightarrow> string" where
  "join sep [] = []"
| "join sep [x] = x"
| "join sep (x # y # ys) = x @ sep @ join sep (y # ys)"

text \<open>
  A literal matched at the front of the text under the \<open>i\<close> flag; the result is the text
  after the literal.
\<close>

definition strip_prefix_ci :: "string \<Rightarrow> string \<Rightarrow> string option" where
  "strip_prefix_ci lit s =
     (if length lit \<le> length s \<and> toLowerCase (take (length lit) s) = toLowerCase lit
      then Some (drop (length lit) s)
      else None)"

text \<open>
  \<open>s.replace(/lit/i, rep)\<close> for a non-empty literal: the leftmost occurrence is
  replaced, the text is unchanged when there is none.
\<close>

fun replace_first_ci :: "string \<Rightarrow> string \<Rightarrow> string \<Rightarrow> string" where
  "replace_first_ci lit rep [] = []"
| "replace_first_ci lit rep (c # cs) =
     (case strip_prefix_ci lit (c # cs) of
        Some rest \<Rightarrow> rep @ rest
      | None \<Rightarrow> c # replace_first_ci lit rep cs)"

text \<open>
  An unanchored regular expression is tried at every start index from the left, the end
  of the text included. \<open>scan m pw s\<close> runs the matcher \<open>m\<close> at each index of \<open>s\<close>;
  \<open>pw\<close> tells whether the character before the index is a word character, which is
  what \<open>\b\<close> at the start of a pattern needs to know.
\<close>

fun scan :: "(bool \<Rightarrow> string \<Rightarrow> 'a option) \<Rightarrow> bool \<Rightarrow> string \<Rightarrow> 'a option" where
  "scan m pw [] = m pw []"
| "scan m pw (c # cs) =
     (case m pw (c # cs) of
        Some r \<Rightarrow> Some r
      | None \<Rightarrow> scan m (is_word c) cs)"

text \<open>
  \<open>\b\<close> in front of the rest \<open>s\<close> of the text, after a word character: the next
  character is no word character, or the text ends.
\<close>

definition boundary_after_word :: "string \<Rightarrow> bool" where
  "boundary_after_word s = (case s of [] \<Rightarrow> True | c # _ \<Rightarrow> if is_word c then False else True)"

text \<open>
  \<open>parseInt\<close> of a run of decimal digits, and the decimal text of a number. Numbers
  are natural numbers; the doubles of the source agree with them below \<open>2^53\<close>.
\<close>

definition digit_val :: "char \<Rightarrow> nat" where
  "digit_val c =
     (case map_of (zip ''0123456789'' [0, 1, 2, 3, 4, 5, 6, 7, 8, 9]) c of
        Some d \<Rightarrow> d
      | None \<Rightarrow> 0)"

definition parseInt :: "string \<Rightarrow> nat" where
  "parseInt ds = foldl (\<lambda>acc c. 10 * acc + digit_val c) 0 ds"

function show_nat :: "nat \<Rightarrow> string" where
  "show_nat n =
     (if n < 10 then [''0123456789'' ! n]
      else show_nat (n div 10) @ [''0123456789'' ! (n mod 10)])"
  by pat_completeness auto
termination
  by (relation "measure id") auto

declare show_nat.simps [simp del]

section \<open>The query plan and its sanitizer\<close>

text \<open>
  A query plan as \<open>processQuestion\<close> builds it and \<open>buildSQL\<close> reads it. The
  limit is absent in the trend and comparison plans.
\<close>

record QueryPlan =
  p_select :: "string list"
  p_from :: string
  p_where :: "string list"
  p_groupBy :: "string list"
  p_orderBy :: "string list"
  p_limit :: "nat option"

text \<open>\<open>this.dataSources.orders\<close>, set in the constructor.\<close>

definition orders_temporal :: "string list" where
  "orders_temporal = [''order_date'', ''ship_date'']"

definition orders_categorical :: "string list" where
  "orders_categorical =
     [''region'', ''customer_name'', ''segment'', ''country'', ''city'',
      ''state'', ''category'', ''sub_category'', ''product_name'', ''ship_mode'']"

definition orders_metrics :: "string list" where
  "orders_metrics = [''sales'', ''quantity'', ''discount'', ''profit'']"

definition validFields :: "string list" where
  "validFields = orders_temporal @ orders_categorical @ orders_metrics @ [''DATE_TRUNC'']"

text \<open>\<open>expr.split(' as ')[0]\<close>: the text before the first \<open>' as '\<close>.\<close>

fun before_first :: "string \<Rightarrow> string \<Rightarrow> string" where
  "before_first sep [] = []"
| "before_first sep (c # cs) = (if prefix sep (c # cs) then [] else c # before_first sep cs)"

text \<open>
  \<open>.replace(/^SUM\(|\)$/g, '')\<close>: a leading \<open>SUM(\<close> is removed, and a closing
  parenthesis that is the last character of what remains.
\<close>

definition strip_sum :: "string \<Rightarrow> string" where
  "strip_sum s =
     (let s1 = (if prefix ''SUM('' s then drop 4 s else s)
      in if s1 \<noteq> [] \<and> last s1 = CHR '')'' then butlast s1 else s1)"

text \<open>
  \<open>.replace(/.*\./, '')\<close>: the dot of the pattern refuses line terminators, so the
  match lies within one line. The first line that holds a full stop loses everything up
  to its last full stop; a text with no full stop is unchanged.
\<close>

definition after_last_dot :: "string \<Rightarrow> string" where
  "after_last_dot line = rev (takeWhile (\<lambda>c. c \<noteq> CHR ''.'') (rev line))"

function strip_alias :: "string \<Rightarrow> string" where
  "strip_alias s =
     (let line = takeWhile (\<lambda>c. \<not> is_line_terminator c) s;
          rest = dropWhile (\<lambda>c. \<not> is_line_terminator c) s
      in if CHR ''.'' \<in> set line then after_last_dot line @ rest
         else (case rest of [] \<Rightarrow> s | t # rest' \<Rightarrow> line @ t # strip_alias rest'))"
  by pat_completeness auto
termination
proof (relation "measure length")
  show "wf (measure length)" by simp
next
  fix s line rest t rest'
  assume rest: "rest = dropWhile (\<lambda>c. \<not> is_line_terminator c) s" and cons: "rest = t # rest'"
  have "length (dropWhile (\<lambda>c. \<not> is_line_terminator c) s) \<le> length s"
    by (rule length_dropWhile_le)
  with rest cons have "length (t # rest') \<le> length s"
    by simp
  then show "(rest', s) \<in> measure length" by simp
qed

declare strip_alias.simps [simp del]

definition baseField :: "string \<Rightarrow> string" where
  "baseField expr = strip_alias (strip_sum (before_first '' as '' expr))"

definition isValidExpression :: "string \<Rightarrow> bool" where
  "isValidExpression expr =
     (if str_includes expr ''DATE_TRUNC'' then True
      else baseField expr \<in> set validFields)"

text \<open>\<open>condition.split(/\s+/)[0]\<close>: the text before the first white space.\<close>

definition first_token :: "string \<Rightarrow> string" where
  "first_token s = takeWhile (\<lambda>c. \<not> is_space c) s"

definition isValidCondition :: "string \<Rightarrow> bool" where
  "isValidCondition condition = (strip_alias (first_token condition) \<in> set validFields)"

text \<open>
  \<open>field.replace(/ ASC| DESC/i, '')\<close>: the leftmost \<open>' ASC'\<close> or \<open>' DESC'\<close>, in
  any letter case, is removed.
\<close>

fun strip_direction :: "string \<Rightarrow> string" where
  "strip_direction [] = []"
| "strip_direction (c # cs) =
     (case strip_prefix_ci '' ASC'' (c # cs) of
        Some rest \<Rightarrow> rest
      | None \<Rightarrow>
          (case strip_prefix_ci '' DESC'' (c # cs) of
             Some rest \<Rightarrow> rest
           | None \<Rightarrow> c # strip_direction cs))"

text \<open>
  \<open>sanitizeQueryPlan\<close> filters the four clause lists of the plan in place and returns
  it; \<open>from\<close> and \<open>limit\<close> are not touched.
\<close>

definition sanitizeQueryPlan :: "QueryPlan \<Rightarrow> QueryPlan" where
  "sanitizeQueryPlan queryPlan =
     queryPlan\<lparr>
       p_select := filter isValidExpression (p_select queryPlan),
       p_where := filter isValidCondition (p_where queryPlan),
       p_groupBy := filter isValidExpression (p_groupBy queryPlan),
       p_orderBy := filter (\<lambda>field. isValidExpression (strip_direction field)) (p_orderBy queryPlan)\<rparr>"

section \<open>The analyzer: entities, question types and the chart decision tree\<close>

text \<open>
  \<open>pattern.test(question)\<close> for the patterns of \<open>MCPAnalyzer\<close>, which are all
  alternations of literals under the \<open>i\<close> flag: one of the alternatives occurs in the
  question, letter case ignored.
\<close>

definition test_ci :: "string list \<Rightarrow> string \<Rightarrow> bool" where
  "test_ci alts question =
     list_ex (\<lambda>alt. str_includes (toLowerCase question) (toLowerCase alt)) alts"






text \<open>\<open>this.questionPatterns\<close> and \<open>analyzeQuestionType\<close>.\<close>

record QuestionTypes =
  comparison :: bool
  trend :: bool
  distribution :: bool
  composition :: bool
  subType :: "string option"

definition comparison_patterns :: "string list list" where
  "comparison_patterns =
     [[''compare'', ''versus'', ''vs'', ''difference'', ''top'', ''bottom'', ''highest'', ''lowest''],
      [''which'', ''who'', ''what'', ''show me'']]"

definition comparison_subTypes :: "(string \<times> string list) list" where
  "comparison_subTypes =
     [(''timeBased'', [''over time'', ''trend'', ''monthly'', ''yearly'', ''daily'']),
      (''ranking'', [''top'', ''bottom'', ''best'', ''worst'', ''highest'', ''lowest'']),
      (''categorical'', [''by'', ''per'', ''across'', ''among''])]"

definition trend_patterns :: "string list list" where
  "trend_patterns =
     [[''trend'', ''change'', ''growth'', ''decline'', ''over time''],
      [''how has'', ''how did'', ''track'', ''progress'']]"

definition distribution_patterns :: "string list list" where
  "distribution_patterns =
     [[''distribute'', ''spread'', ''range'', ''variation''],
      [''how many'', ''what is the distribution'']]"

definition composition_patterns :: "string list list" where
  "composition_patterns =
     [[''breakdown'', ''composition'', ''make up'', ''split'', ''divide''],
      [''what percent'', ''proportion'', ''share'']]"

definition some_pattern :: "string list list \<Rightarrow> string \<Rightarrow> bool" where
  "some_pattern patterns question = list_ex (\<lambda>pattern. test_ci pattern question) patterns"

definition analyzeQuestionType :: "string \<Rightarrow> QuestionTypes" where
  "analyzeQuestionType question =
     \<lparr>comparison = some_pattern comparison_patterns question,
      trend = some_pattern trend_patterns question,
      distribution = some_pattern distribution_patterns question,
      composition = some_pattern composition_patterns question,
      subType =
        (if some_pattern comparison_patterns question
         then map_option fst (find (\<lambda>(name, pattern). test_ci pattern question) comparison_subTypes)
         else None)\<rparr>"

text \<open>
  \<open>analyzeDataCharacteristics\<close> reads the result rows: objects from column names to
  values. A missing column is \<open>undefined\<close>.
\<close>

datatype js_value = JStr string | JNum int | JBool bool | JNull

type_synonym DataRow = "string \<rightharpoonup> js_value"

fun truthy :: "js_value option \<Rightarrow> bool" where
  "truthy None = False"
| "truthy (Some (JStr s)) = (s \<noteq> [])"
| "truthy (Some (JNum n)) = (n \<noteq> 0)"
| "truthy (Some (JBool b)) = b"
| "truthy (Some JNull) = False"

text \<open>\<open>a || b\<close>.\<close>

definition js_or :: "js_value option \<Rightarrow> js_value option \<Rightarrow> js_value option" where
  "js_or a b = (if truthy a then a else b)"

record DataCharacteristics =
  recordCount :: nat
  hasTimeComponent :: bool
  uniqueCategories :: nat
  isHierarchical :: bool

definition checkForHierarchy :: "DataRow list \<Rightarrow> bool" where
  "checkForHierarchy data =
     (if data = [] then False
      else
        (let hasParentChild =
               list_ex (\<lambda>row. truthy (row ''parent_id'') \<or> truthy (row ''parent'')
                               \<or> truthy (row ''category_parent'') \<or> row ''level'' \<noteq> None) data;
             hasNesting =
               list_ex (\<lambda>row. truthy (row ''subcategory'') \<or> truthy (row ''sub_category'')
                               \<or> truthy (row ''child_category'')) data
         in hasParentChild \<or> hasNesting))"

definition analyzeDataCharacteristics :: "DataRow list \<Rightarrow> DataCharacteristics" where
  "analyzeDataCharacteristics data =
     (if data = [] then
        \<lparr>recordCount = 0, hasTimeComponent = False, uniqueCategories = 0, isHierarchical = False\<rparr>
      else
        \<lparr>recordCount = length data,
         hasTimeComponent =
           list_ex (\<lambda>row. truthy (row ''date'') \<or> truthy (row ''order_date'')
                           \<or> truthy (row ''timestamp'')) data,
         uniqueCategories =
           length (remdups (map (\<lambda>row. js_or (js_or (row ''category'') (row ''customer_name''))
                                              (row ''name'')) data)),
         isHierarchical = checkForHierarchy data\<rparr>)"

text \<open>
  \<open>Math.ceil(Math.sqrt(n))\<close> for a record count \<open>n\<close>. The count is the length of an
  array, below \<open>2^32\<close>, where the rounded floating-point root never crosses an
  integer: the result is the least \<open>k\<close> with \<open>n \<le> k * k\<close>, found by counting up.
\<close>

function least_root_from :: "nat \<Rightarrow> nat \<Rightarrow> nat" where
  "least_root_from k n = (if n \<le> k * k then k else least_root_from (Suc k) n)"
  by pat_completeness auto
termination
  by (relation "measure (\<lambda>(k, n). n - k * k)") auto

declare least_root_from.simps [simp del]

definition ceil_sqrt :: "nat \<Rightarrow> nat" where
  "ceil_sqrt n = least_root_from 0 n"

text \<open>
  The chart specification that \<open>selectVisualization\<close> returns: type, optional
  orientation, and the configuration entries of the object literal.
\<close>

datatype config_value = CBool bool | CNum nat

record VisSpec =
  v_type :: string
  v_orientation :: "string option"
  v_config :: "(string \<times> config_value) list"

text \<open>
  The decision tree. The argument \<open>metricType\<close> of the source is never read and is
  left out.
\<close>

definition selectVisualization :: "QuestionTypes \<Rightarrow> DataCharacteristics \<Rightarrow> VisSpec" where
  "selectVisualization visType dataCharacteristics =
     (if comparison visType \<and> subType visType = Some ''ranking'' then
        \<lparr>v_type = ''bar'', v_orientation = Some ''horizontal'',
         v_config = [(''sorted'', CBool True), (''showValues'', CBool True), (''animation'', CBool True)]\<rparr>
      else if comparison visType \<and> subType visType = Some ''timeBased'' then
        \<lparr>v_type = ''line'', v_orientation = None,
         v_config = [(''showPoints'', CBool True), (''showTooltip'', CBool True), (''animation'', CBool True)]\<rparr>
      else if trend visType \<and> hasTimeComponent dataCharacteristics then
        \<lparr>v_type = ''line'', v_orientation = None,
         v_config = [(''showPoints'', CBool True), (''showTooltip'', CBool True), (''animation'', CBool True)]\<rparr>
      else if distribution visType then
        (if uniqueCategories dataCharacteristics > 10 then
           \<lparr>v_type = ''histogram'', v_orientation = None,
            v_config = [(''bins'', CNum (min 20 (ceil_sqrt (recordCount dataCharacteristics))))]\<rparr>
         else
           \<lparr>v_type = ''bar'', v_orientation = Some ''vertical'',
            v_config = [(''grouped'', CBool True)]\<rparr>)
      else if composition visType then
        (if uniqueCategories dataCharacteristics \<le> 5 then
           \<lparr>v_type = ''pie'', v_orientation = None,
            v_config = [(''showPercentage'', CBool True), (''donut'', CBool False)]\<rparr>
         else
           \<lparr>v_type = ''treemap'', v_orientation = None,
            v_config = [(''showValues'', CBool True)]\<rparr>)
      else
        \<lparr>v_type = ''bar'', v_orientation = Some ''vertical'',
         v_config = [(''showValues'', CBool True)]\<rparr>)"

section \<open>The orchestrator: context, extraction and \<open>processQuestion\<close>\<close>

subsection \<open>Errors\<close>

text \<open>
  A thrown JavaScript error is a value: its class and its message.
\<close>

datatype error = Error string | TypeError string | RangeError string

definition sq :: string where
  "sq = [CHR 0x27]"

subsection \<open>Session contexts\<close>

record HistoryEntry =
  h_question :: string
  h_timestamp :: nat
  h_type :: string

record SessionContext =
  lastState :: "string option"
  lastYear :: "nat option"
  lastMetric :: string
  lastLimit :: nat
  questions :: "HistoryEntry list"

text \<open>
  The state of a \<open>ModelContextProtocol\<close> object that \<open>processQuestion\<close> changes: the
  map of session contexts. The field \<open>dispatched\<close> is the trace of the plans that were
  handed to \<open>executeQuery\<close>, oldest first; the source has no such field, the model
  keeps it to speak about the calls.
\<close>

record MCP =
  sessionContexts :: "string \<rightharpoonup> SessionContext"
  dispatched :: "QueryPlan list"

definition initial_MCP :: MCP where
  "initial_MCP = \<lparr>sessionContexts = Map.empty, dispatched = []\<rparr>"

definition default_context :: SessionContext where
  "default_context =
     \<lparr>lastState = None, lastYear = None, lastMetric = ''sales'', lastLimit = 5, questions = []\<rparr>"

definition getContext :: "string \<Rightarrow> MCP \<Rightarrow> SessionContext \<times> MCP" where
  "getContext sessionId st =
     (case sessionContexts st sessionId of
        None \<Rightarrow>
          (default_context,
           st\<lparr>sessionContexts := (sessionContexts st)(sessionId \<mapsto> default_context)\<rparr>)
      | Some context \<Rightarrow> (context, st))"

text \<open>A string or \<open>null\<close> in a condition: \<open>null\<close> and the empty string are falsy.\<close>

fun truthy_string :: "string option \<Rightarrow> bool" where
  "truthy_string None = False"
| "truthy_string (Some s) = (s \<noteq> [])"

fun truthy_number :: "nat option \<Rightarrow> bool" where
  "truthy_number None = False"
| "truthy_number (Some n) = (n \<noteq> 0)"

text \<open>
  A string or \<open>null\<close> inside a template literal. In \<open>enhanceQuestionWithContext\<close>
  the replacement text of \<open>replace\<close> is inserted as it is: the metric of a context is
  the word \<open>sales\<close>, which no code changes, and holds no \<open>$\<close> pattern.
\<close>

fun template_text :: "string option \<Rightarrow> string" where
  "template_text None = ''null''"
| "template_text (Some s) = s"

definition enhanceQuestionWithContext :: "string \<Rightarrow> SessionContext \<Rightarrow> string" where
  "enhanceQuestionWithContext question context =
     (let q = toLowerCase question
      in if questions context \<noteq> [] then
           (if \<not> str_includes q ''in'' \<and> truthy_string (lastState context)
               \<and> (str_includes q ''top'' \<or> str_includes q ''sales'')
            then question @ '' in '' @ template_text (lastState context)
            else if str_includes q ''how about'' \<and> truthy_string (lastState context)
            then replace_first_ci ''how about'' (''show '' @ lastMetric context @ '' in'') question
            else question)
         else question)"

subsection \<open>Validation\<close>

text \<open>
  \<open>/;|\bDROP\b|\bDELETE\b|\bUPDATE\b|\bINSERT\b/i\<close> at one start index: a semicolon,
  or one of the four words with a word boundary on each side.
\<close>

definition keyword_at :: "string \<Rightarrow> bool \<Rightarrow> string \<Rightarrow> bool" where
  "keyword_at kw pw s =
     (if pw then False
      else (case strip_prefix_ci kw s of
              None \<Rightarrow> False
            | Some rest \<Rightarrow> boundary_after_word rest))"

definition injection_match :: "bool \<Rightarrow> string \<Rightarrow> unit option" where
  "injection_match pw s =
     (if prefix '';'' s \<or> keyword_at ''DROP'' pw s \<or> keyword_at ''DELETE'' pw s
         \<or> keyword_at ''UPDATE'' pw s \<or> keyword_at ''INSERT'' pw s
      then Some () else None)"

text \<open>
  \<open>validateQuestion\<close> receives any value. The object never defines \<open>errorTypes\<close>, so
  the first branch fails while it builds its message and what is thrown is a type error.
\<close>

definition validateQuestion :: "js_value option \<Rightarrow> error + unit" where
  "validateQuestion question =
     (case question of
        Some (JStr s) \<Rightarrow>
          (if s = [] then
             Inl (TypeError (''Cannot read properties of undefined (reading '' @ sq @ ''INVALID_QUESTION'' @ sq @ '')''))
           else if length s > 500 then Inl (Error ''Question too long (max 500 characters)'')
           else if length s < 3 then Inl (Error ''Question too short'')
           else if scan injection_match False s \<noteq> None then Inl (Error ''Invalid question content'')
           else Inr ())
      | _ \<Rightarrow>
          Inl (TypeError (''Cannot read properties of undefined (reading '' @ sq @ ''INVALID_QUESTION'' @ sq @ '')'')))"

subsection \<open>Extraction\<close>

text \<open>
  The state pattern \<open>/\b(?:in|for)\s+([A-Za-z\s]+?)(?=\s+|$)/i\<close> of
  \<open>extractEntitiesAndSource\<close>.

  The group is lazy: it takes one character of its class and grows by one while the
  lookahead fails, which asks for white space or the end of the text next.
\<close>

fun lazy_state :: "string \<Rightarrow> string \<Rightarrow> string option" where
  "lazy_state acc [] = Some acc"
| "lazy_state acc (c # cs) =
     (if is_space c then Some acc
      else if is_letter c then lazy_state (acc @ [c]) cs
      else None)"

definition state_group :: "string \<Rightarrow> string option" where
  "state_group s =
     (case s of
        [] \<Rightarrow> None
      | c # cs \<Rightarrow> if is_letter c \<or> is_space c then lazy_state [c] cs else None)"

text \<open>
  \<open>\s+\<close> is greedy and gives white space back one character at a time when the group
  fails behind it: \<open>state_after_spaces k s\<close> tries the group after \<open>k\<close>, \<open>k - 1\<close>, ...,
  \<open>1\<close> characters of the white space that \<open>s\<close> starts with.
\<close>

fun state_after_spaces :: "nat \<Rightarrow> string \<Rightarrow> string option" where
  "state_after_spaces 0 s = None"
| "state_after_spaces (Suc k) s =
     (case state_group (drop (Suc k) s) of
        Some g \<Rightarrow> Some g
      | None \<Rightarrow> state_after_spaces k s)"

definition state_tail :: "string \<Rightarrow> string option" where
  "state_tail rest = state_after_spaces (length (takeWhile is_space rest)) rest"

definition state_match :: "bool \<Rightarrow> string \<Rightarrow> string option" where
  "state_match pw s =
     (if pw then None
      else (case Option.bind (strip_prefix_ci ''in'' s) state_tail of
              Some g \<Rightarrow> Some g
            | None \<Rightarrow> Option.bind (strip_prefix_ci ''for'' s) state_tail))"

text \<open>
  Of the entity object only \<open>geographic\<close> is read later (by \<open>processQuestion\<close> and
  \<open>updateContext\<close>); the lists \<open>temporal\<close>, \<open>categorical\<close>, \<open>metrics\<close> and the map
  \<open>filters\<close> are filled or left empty and never read, and are not part of the model.
  Nothing inside the \<open>try\<close> of \<open>extractEntitiesAndSource\<close> throws on a string, so
  its \<open>catch\<close> is never entered.
\<close>

record EntitySet =
  geographic :: "string option"

definition extractEntitiesAndSource :: "string \<Rightarrow> EntitySet" where
  "extractEntitiesAndSource question =
     \<lparr>geographic = map_option trim (scan state_match False question)\<rparr>"

text \<open>\<open>extractYear\<close>: \<open>/\b(19|20)\d{2}\b/\<close>, then \<open>parseInt\<close> of the match.\<close>

definition year_match :: "bool \<Rightarrow> string \<Rightarrow> string option" where
  "year_match pw s =
     (if pw then None
      else (case s of
              a # b # c # d # rest \<Rightarrow>
                if ([a, b] = ''19'' \<or> [a, b] = ''20'') \<and> is_digit c \<and> is_digit d
                   \<and> boundary_after_word rest
                then Some [a, b, c, d] else None
            | _ \<Rightarrow> None))"

definition extractYear :: "string \<Rightarrow> nat option" where
  "extractYear question = map_option parseInt (scan year_match False question)"

text \<open>
  \<open>extractLimit\<close>: \<open>/\btop\s+(\d+)\b/i\<close>. Both repetitions are greedy and neither can
  give anything back: after less white space comes white space, no digit, and
  after fewer digits comes a digit, no word boundary.
\<close>

definition limit_match :: "bool \<Rightarrow> string \<Rightarrow> string option" where
  "limit_match pw s =
     (if pw then None
      else (case strip_prefix_ci ''top'' s of
              None \<Rightarrow> None
            | Some rest \<Rightarrow>
                (let spaces = takeWhile is_space rest;
                     digits = takeWhile is_digit (dropWhile is_space rest);
                     after = dropWhile is_digit (dropWhile is_space rest)
                 in if spaces \<noteq> [] \<and> digits \<noteq> [] \<and> boundary_after_word after
                    then Some digits else None)))"

definition extractLimit :: "string \<Rightarrow> nat option" where
  "extractLimit question = map_option parseInt (scan limit_match False question)"

text \<open>
  The two patterns of \<open>extractComparisonStates\<close>,
  \<open>/(\w+)\s+(?:vs|versus)\s+(\w+)/i\<close> and \<open>/between\s+(\w+)\s+and\s+(\w+)/i\<close>.
  Word characters and white space are disjoint and every repetition is followed by a
  character of the other kind, so each repetition takes its longest run or the attempt
  at this start index fails.
\<close>

definition take_word :: "string \<Rightarrow> (string \<times> string) option" where
  "take_word s =
     (if takeWhile is_word s = [] then None
      else Some (takeWhile is_word s, dropWhile is_word s))"

definition skip_spaces :: "string \<Rightarrow> string option" where
  "skip_spaces s = (if takeWhile is_space s = [] then None else Some (dropWhile is_space s))"

definition vs_keyword :: "string \<Rightarrow> string option" where
  "vs_keyword s =
     (case Option.bind (strip_prefix_ci ''vs'' s) skip_spaces of
        Some rest \<Rightarrow> Some rest
      | None \<Rightarrow> Option.bind (strip_prefix_ci ''versus'' s) skip_spaces)"

definition vs_match :: "bool \<Rightarrow> string \<Rightarrow> (string \<times> string) option" where
  "vs_match pw s =
     do {
       (w1, r1) \<leftarrow> take_word s;
       r2 \<leftarrow> skip_spaces r1;
       r3 \<leftarrow> vs_keyword r2;
       (w2, r4) \<leftarrow> take_word r3;
       Some (w1, w2)
     }"

definition between_match :: "bool \<Rightarrow> string \<Rightarrow> (string \<times> string) option" where
  "between_match pw s =
     do {
       r0 \<leftarrow> strip_prefix_ci ''between'' s;
       r1 \<leftarrow> skip_spaces r0;
       (w1, r2) \<leftarrow> take_word r1;
       r3 \<leftarrow> skip_spaces r2;
       r4 \<leftarrow> strip_prefix_ci ''and'' r3;
       r5 \<leftarrow> skip_spaces r4;
       (w2, r6) \<leftarrow> take_word r5;
       Some (w1, w2)
     }"

text \<open>
  \<open>state.trim().charAt(0).toUpperCase() + state.trim().slice(1).toLowerCase()\<close>.
\<close>

definition capitalize :: "string \<Rightarrow> string" where
  "capitalize state =
     (case trim state of
        [] \<Rightarrow> []
      | c # cs \<Rightarrow> to_upper c # toLowerCase cs)"

definition extractComparisonStates :: "string \<Rightarrow> string list" where
  "extractComparisonStates question =
     (let q = toLowerCase question;
          states = (case scan vs_match False q of Some (a, b) \<Rightarrow> [a, b] | None \<Rightarrow> []);
          states' = (case scan between_match False q of Some (a, b) \<Rightarrow> [a, b] | None \<Rightarrow> states)
      in map capitalize states')"

subsection \<open>Execution\<close>

text \<open>
  What \<open>processQuestion\<close> calls outside the object: the connection pool, which answers
  an SQL text with rows or throws an error with a message; the date library, which turns
  a column value into an ISO text or throws on an invalid date (\<open>None\<close>); and the clock.
\<close>

record Env =
  pg_query :: "string \<Rightarrow> string + DataRow list"
  to_iso :: "js_value option \<Rightarrow> string option"
  clock :: nat

definition buildSQL :: "QueryPlan \<Rightarrow> string" where
  "buildSQL queryPlan =
     (let select = (if p_select queryPlan \<noteq> [] then join '', '' (p_select queryPlan) else ''*'');
          sql0 = ''SELECT '' @ select @ '' FROM '' @ p_from queryPlan;
          sql1 = (if p_where queryPlan \<noteq> []
                  then sql0 @ '' WHERE '' @ join '' AND '' (p_where queryPlan) else sql0);
          sql2 = (if p_groupBy queryPlan \<noteq> []
                  then sql1 @ '' GROUP BY '' @ join '', '' (p_groupBy queryPlan) else sql1);
          sql3 = (if p_orderBy queryPlan \<noteq> []
                  then sql2 @ '' ORDER BY '' @ join '', '' (p_orderBy queryPlan) else sql2)
      in case p_limit queryPlan of
           None \<Rightarrow> sql3
         | Some limit \<Rightarrow> if limit \<noteq> 0 then sql3 @ '' LIMIT '' @ show_nat limit else sql3)"

text \<open>
  \<open>executeQuery\<close>: an empty answer is thrown as an error inside the \<open>try\<close>, and every
  error of the \<open>try\<close> is thrown again under the prefix of the \<open>catch\<close>.
\<close>

definition executeQuery :: "Env \<Rightarrow> QueryPlan \<Rightarrow> error + DataRow list" where
  "executeQuery env queryPlan =
     (case pg_query env (buildSQL queryPlan) of
        Inl message \<Rightarrow> Inl (Error (''Database query failed: '' @ message))
      | Inr rows \<Rightarrow>
          if rows = [] then Inl (Error ''Database query failed: No data found for the given query'')
          else Inr rows)"

definition dispatch :: "Env \<Rightarrow> QueryPlan \<Rightarrow> MCP \<Rightarrow> (error + DataRow list) \<times> MCP" where
  "dispatch env queryPlan st =
     (executeQuery env queryPlan, st\<lparr>dispatched := dispatched st @ [queryPlan]\<rparr>)"

subsection \<open>Results\<close>

text \<open>
  The result object, as far as it is text and structure: title, chart type, chart data
  and raw rows. The values of the chart points stay the raw column values
  (\<open>parseFloat\<close> is floating point), and the subtitle, the insight text and the fixed
  chart configuration (locale formatting and floating-point sums) are left out.
  \<open>r_year\<close> is \<open>result.data.year\<close>, which \<open>updateContext\<close> reads and no branch of
  \<open>processQuestion\<close> sets.
\<close>

datatype ChartData =
    Bars "(js_value option \<times> js_value option) list"
  | Line "(string \<times> js_value option) list"
  | MultiLine "(string \<times> (string \<times> js_value option) list) list"

record AnalysisResult =
  r_title :: string
  r_type :: string
  r_data :: ChartData
  r_rawData :: "DataRow list"
  r_year :: "nat option"

text \<open>
  \<open>data.map(row => ({x: new Date(row.month).toISOString(), y: ...}))\<close>: the first
  invalid month throws.
\<close>

fun line_points :: "Env \<Rightarrow> DataRow list \<Rightarrow> (string \<times> js_value option) list option" where
  "line_points env [] = Some []"
| "line_points env (row # rows) =
     (case to_iso env (row ''month'') of
        None \<Rightarrow> None
      | Some x \<Rightarrow> map_option (\<lambda>points. (x, row ''total_sales'') # points) (line_points env rows))"

fun grouped_series ::
  "Env \<Rightarrow> DataRow list \<Rightarrow> string list \<Rightarrow> (string \<times> (string \<times> js_value option) list) list option" where
  "grouped_series env data [] = Some []"
| "grouped_series env data (state # states) =
     (case line_points env (filter (\<lambda>row. row ''state'' = Some (JStr state)) data) of
        None \<Rightarrow> None
      | Some points \<Rightarrow> map_option (\<lambda>series. (state, points) # series) (grouped_series env data states))"

definition updateContext :: "Env \<Rightarrow> string \<Rightarrow> AnalysisResult \<Rightarrow> EntitySet \<Rightarrow> MCP \<Rightarrow> MCP" where
  "updateContext env sessionId result entities st =
     (let (context, st1) = getContext sessionId st;
          c1 = (if truthy_string (geographic entities)
                then context\<lparr>lastState := geographic entities\<rparr> else context);
          c2 = (if truthy_number (r_year result) then c1\<lparr>lastYear := r_year result\<rparr> else c1);
          c3 = c2\<lparr>questions := questions c2 @
                 [\<lparr>h_question = r_title result, h_timestamp = clock env, h_type = r_type result\<rparr>]\<rparr>;
          c4 = (if length (questions c3) > 5 then c3\<lparr>questions := tl (questions c3)\<rparr> else c3)
      in st1\<lparr>sessionContexts := (sessionContexts st1)(sessionId \<mapsto> c4)\<rparr>)"

subsection \<open>\<open>processQuestion\<close>\<close>

definition year_filter :: "nat option \<Rightarrow> string list" where
  "year_filter year =
     (case year of
        None \<Rightarrow> []
      | Some y \<Rightarrow> if y \<noteq> 0 then [''EXTRACT(YEAR FROM order_date) = '' @ show_nat y] else [])"

definition year_suffix :: "nat option \<Rightarrow> string" where
  "year_suffix year =
     (case year of
        None \<Rightarrow> []
      | Some y \<Rightarrow> if y \<noteq> 0 then '' ('' @ show_nat y @ '')'' else [])"

definition state_filter :: "EntitySet \<Rightarrow> string list" where
  "state_filter entities =
     (if truthy_string (geographic entities)
      then [''state = '' @ sq @ template_text (geographic entities) @ sq] else [])"

definition state_suffix :: "EntitySet \<Rightarrow> string" where
  "state_suffix entities =
     (if truthy_string (geographic entities)
      then '' in '' @ template_text (geographic entities) else [])"

definition comparison_plan :: "string list \<Rightarrow> nat option \<Rightarrow> QueryPlan" where
  "comparison_plan states year =
     \<lparr>p_select = [''DATE_TRUNC('month', order_date) as month'', ''state'', ''SUM(sales) as total_sales''],
      p_from = ''orders'',
      p_where = [''state IN ('' @ sq @ join (sq @ '', '' @ sq) states @ sq @ '')''] @ year_filter year,
      p_groupBy = [''DATE_TRUNC('month', order_date)'', ''state''],
      p_orderBy = [''month ASC, state''],
      p_limit = None\<rparr>"

definition ranking_plan :: "string list \<Rightarrow> nat \<Rightarrow> QueryPlan" where
  "ranking_plan whereConditions limit =
     \<lparr>p_select = [''customer_name'', ''SUM(sales) as total_sales''],
      p_from = ''orders'',
      p_where = whereConditions,
      p_groupBy = [''customer_name''],
      p_orderBy = [''total_sales DESC''],
      p_limit = Some limit\<rparr>"

definition trend_plan :: "EntitySet \<Rightarrow> QueryPlan" where
  "trend_plan entities =
     \<lparr>p_select = [''DATE_TRUNC('month', order_date) as month'', ''SUM(sales) as total_sales''],
      p_from = ''orders'',
      p_where = state_filter entities,
      p_groupBy = [''DATE_TRUNC('month', order_date)''],
      p_orderBy = [''month ASC''],
      p_limit = None\<rparr>"

definition bar_data :: "DataRow list \<Rightarrow> ChartData" where
  "bar_data data = Bars (map (\<lambda>row. (row ''customer_name'', row ''total_sales'')) data)"

text \<open>
  \<open>processQuestion\<close>. An error leaves the \<open>try\<close> through the \<open>catch\<close>, which logs and
  throws it again: the context that \<open>getContext\<close> created stays, \<open>updateContext\<close> has
  not run.
\<close>

definition processQuestion ::
  "Env \<Rightarrow> string \<Rightarrow> string \<Rightarrow> MCP \<Rightarrow> (error + AnalysisResult) \<times> MCP" where
  "processQuestion env question sessionId st =
     (let (context, st1) = getContext sessionId st;
          enhancedQuestion = enhanceQuestionWithContext question context;
          entities = extractEntitiesAndSource enhancedQuestion;
          q = toLowerCase enhancedQuestion;
          isComparisonQuery = (str_includes q ''compare'' \<or> str_includes q ''vs''
                               \<or> str_includes q ''versus'');
          year = extractYear enhancedQuestion
      in if isComparisonQuery then
           (let states = extractComparisonStates enhancedQuestion
            in if length states < 2 then (Inl (Error ''Could not identify states to compare''), st1)
               else
                 (case dispatch env (comparison_plan states year) st1 of
                    (Inl e, st2) \<Rightarrow> (Inl e, st2)
                  | (Inr data, st2) \<Rightarrow>
                      (case grouped_series env data states of
                         None \<Rightarrow> (Inl (RangeError ''Invalid time value''), st2)
                       | Some series \<Rightarrow>
                           (let result =
                                  \<lparr>r_title = ''Sales Comparison: '' @ join '' vs '' states @ year_suffix year,
                                   r_type = ''multi-line'',
                                   r_data = MultiLine series,
                                   r_rawData = data,
                                   r_year = None\<rparr>
                            in (Inr result, updateContext env sessionId result entities st2)))))
         else if str_includes q ''top'' then
           (let limit = (case extractLimit enhancedQuestion of
                           None \<Rightarrow> 5
                         | Some n \<Rightarrow> if n \<noteq> 0 then n else 5);
                whereConditions = state_filter entities @ year_filter year
            in case dispatch env (ranking_plan whereConditions limit) st1 of
                 (Inl e, st2) \<Rightarrow> (Inl e, st2)
               | (Inr data, st2) \<Rightarrow>
                   (let result =
                          \<lparr>r_title = ''Top '' @ show_nat limit @ '' Customers'' @ state_suffix entities
                                       @ year_suffix year,
                           r_type = ''horizontal-bar'',
                           r_data = bar_data data,
                           r_rawData = data,
                           r_year = None\<rparr>
                    in (Inr result, updateContext env sessionId result entities st2)))
         else
           (let isTrendQuery = \<not> str_includes q ''top''
            in if isTrendQuery then
                 (case dispatch env (trend_plan entities) st1 of
                    (Inl e, st2) \<Rightarrow> (Inl e, st2)
                  | (Inr data, st2) \<Rightarrow>
                      (case line_points env data of
                         None \<Rightarrow> (Inl (RangeError ''Invalid time value''), st2)
                       | Some points \<Rightarrow>
                           (let result =
                                  \<lparr>r_title = ''Monthly Sales Trend'' @ state_suffix entities,
                                   r_type = ''line'',
                                   r_data = Line points,
                                   r_rawData = data,
                                   r_year = None\<rparr>
                            in (Inr result, updateContext env sessionId result entities st2))))
               else
                 (case dispatch env (ranking_plan (state_filter entities) 5) st1 of
                    (Inl e, st2) \<Rightarrow> (Inl e, st2)
                  | (Inr data, st2) \<Rightarrow>
                      (let result =
                             \<lparr>r_title = ''Top 5 Customers'' @ state_suffix entities,
                              r_type = ''horizontal-bar'',
                              r_data = bar_data data,
                              r_rawData = data,
                              r_year = None\<rparr>
                       in (Inr result, updateContext env sessionId result entities st2)))))"

section \<open>Constants of the verified scenarios\<close>

text \<open>The plan of the question "Show top 5 customers in California".\<close>

definition california_plan :: QueryPlan where
  "california_plan =
     \<lparr>p_select = [''customer_name'', ''SUM(sales) as total_sales''],
      p_from = ''orders'',
      p_where = [''state = '' @ sq @ ''California'' @ sq],
      p_groupBy = [''customer_name''],
      p_orderBy = [''total_sales DESC''],
      p_limit = Some 5\<rparr>"

text \<open>The monthly trend plan with no filter at all.\<close>

definition unfiltered_trend_plan :: QueryPlan where
  "unfiltered_trend_plan =
     \<lparr>p_select = [''DATE_TRUNC('month', order_date) as month'', ''SUM(sales) as total_sales''],
      p_from = ''orders'',
      p_where = [],
      p_groupBy = [''DATE_TRUNC('month', order_date)''],
      p_orderBy = [''month ASC''],
      p_limit = None\<rparr>"

text \<open>An environment whose database answers every query with one customer row.\<close>

definition one_row_env :: Env where
  "one_row_env =
     \<lparr>pg_query = (\<lambda>sql. Inr [[''customer_name'' \<mapsto> JStr ''Ann'', ''total_sales'' \<mapsto> JStr ''10'']]),
      to_iso = (\<lambda>v. None),
      clock = 0\<rparr>"

text \<open>
  The history of a session, and a run of \<open>updateContext\<close> calls: each call comes with
  its environment (the clock), the session, the result and the entities.
\<close>

definition history :: "MCP \<Rightarrow> string \<Rightarrow> HistoryEntry list" where
  "history st sessionId =
     (case sessionContexts st sessionId of None \<Rightarrow> [] | Some context \<Rightarrow> questions context)"

definition history_entry :: "Env \<Rightarrow> AnalysisResult \<Rightarrow> HistoryEntry" where
  "history_entry env result =
     \<lparr>h_question = r_title result, h_timestamp = clock env, h_type = r_type result\<rparr>"

fun apply_updates :: "(Env \<times> string \<times> AnalysisResult \<times> EntitySet) list \<Rightarrow> MCP \<Rightarrow> MCP" where
  "apply_updates [] st = st"
| "apply_updates ((env, sessionId, result, entities) # calls) st =
     apply_updates calls (updateContext env sessionId result entities st)"



text \<open>
  A question type with the distribution flag alone, and the data characteristics of the
  visualization law: 100 records in 15 categories.
\<close>

definition distribution_only :: QuestionTypes where
  "distribution_only =
     \<lparr>comparison = False, trend = False, distribution = True, composition = False, subType = None\<rparr>"

definition sample_characteristics :: DataCharacteristics where
  "sample_characteristics =
     \<lparr>recordCount = 100, hasTimeComponent = False, uniqueCategories = 15, isHierarchical = False\<rparr>"

text \<open>A result that carries nothing but its title, for the history law.\<close>

definition titled_result :: "string \<Rightarrow> AnalysisResult" where
  "titled_result title =
     \<lparr>r_title = title, r_type = ''line'', r_data = Line [], r_rawData = [], r_year = None\<rparr>"

text \<open>
  What the comparison claim calls a name in title case: one word token, no lower-case
  letter in front, no upper-case letter behind it.
\<close>

definition title_cased_word :: "string \<Rightarrow> bool" where
  "title_cased_word name =
     (name \<noteq> [] \<and> list_all is_word name \<and> \<not> is_lower (hd name)
      \<and> list_all (\<lambda>c. \<not> is_upper c) (tl name))"

section \<open>Facts about characters and scanning\<close>


lemma upper_lower_disjoint: "is_upper c \<Longrightarrow> \<not> is_lower c"
  by (auto simp: is_upper_def is_lower_def)

lemma to_lower_cases: "(\<not> is_upper c \<and> to_lower c = c) \<or> (is_upper c \<and> is_lower (to_lower c))"
proof (cases "map_of (zip ''ABCDEFGHIJKLMNOPQRSTUVWXYZ'' ''abcdefghijklmnopqrstuvwxyz'') c")
  case None
  have keys: "map fst (zip ''ABCDEFGHIJKLMNOPQRSTUVWXYZ'' ''abcdefghijklmnopqrstuvwxyz'')
              = ''ABCDEFGHIJKLMNOPQRSTUVWXYZ''"
    by (rule map_fst_zip) simp
  from None have "c \<notin> fst ` set (zip ''ABCDEFGHIJKLMNOPQRSTUVWXYZ'' ''abcdefghijklmnopqrstuvwxyz'')"
    by (rule iffD1 [OF map_of_eq_None_iff])
  then have "c \<notin> set (map fst (zip ''ABCDEFGHIJKLMNOPQRSTUVWXYZ'' ''abcdefghijklmnopqrstuvwxyz''))"
    by (simp only: set_map not_False_eq_True)
  then have "\<not> is_upper c"
    unfolding keys is_upper_def .
  with None show ?thesis
    by (simp add: to_lower_def)
next
  case (Some d)
  then have in_zip: "(c, d) \<in> set (zip ''ABCDEFGHIJKLMNOPQRSTUVWXYZ'' ''abcdefghijklmnopqrstuvwxyz'')"
    by (rule map_of_SomeD)
  have "is_upper c"
    using set_zip_leftD [OF in_zip] by (simp add: is_upper_def)
  moreover have "is_lower d"
    using set_zip_rightD [OF in_zip] by (simp add: is_lower_def)
  ultimately show ?thesis
    using Some by (simp add: to_lower_def)
qed

lemma to_upper_cases: "(\<not> is_lower c \<and> to_upper c = c) \<or> (is_lower c \<and> is_upper (to_upper c))"
proof (cases "map_of (zip ''abcdefghijklmnopqrstuvwxyz'' ''ABCDEFGHIJKLMNOPQRSTUVWXYZ'') c")
  case None
  have keys: "map fst (zip ''abcdefghijklmnopqrstuvwxyz'' ''ABCDEFGHIJKLMNOPQRSTUVWXYZ'')
              = ''abcdefghijklmnopqrstuvwxyz''"
    by (rule map_fst_zip) simp
  from None have "c \<notin> fst ` set (zip ''abcdefghijklmnopqrstuvwxyz'' ''ABCDEFGHIJKLMNOPQRSTUVWXYZ'')"
    by (rule iffD1 [OF map_of_eq_None_iff])
  then have "c \<notin> set (map fst (zip ''abcdefghijklmnopqrstuvwxyz'' ''ABCDEFGHIJKLMNOPQRSTUVWXYZ''))"
    by (simp only: set_map not_False_eq_True)
  then have "\<not> is_lower c"
    unfolding keys is_lower_def .
  with None show ?thesis
    by (simp add: to_upper_def)
next
  case (Some d)
  then have in_zip: "(c, d) \<in> set (zip ''abcdefghijklmnopqrstuvwxyz'' ''ABCDEFGHIJKLMNOPQRSTUVWXYZ'')"
    by (rule map_of_SomeD)
  have "is_lower c"
    using set_zip_leftD [OF in_zip] by (simp add: is_lower_def)
  moreover have "is_upper d"
    using set_zip_rightD [OF in_zip] by (simp add: is_upper_def)
  ultimately show ?thesis
    using Some by (simp add: to_upper_def)
qed

lemma to_lower_not_upper: "\<not> is_upper (to_lower c)"
  using to_lower_cases [of c] upper_lower_disjoint [of "to_lower c"] by auto

lemma to_upper_not_lower: "\<not> is_lower (to_upper c)"
  using to_upper_cases [of c] upper_lower_disjoint [of "to_upper c"] by auto

lemma is_word_to_lower: "is_word c \<Longrightarrow> is_word (to_lower c)"
  using to_lower_cases [of c] by (auto simp: is_word_def is_letter_def)

lemma is_word_to_upper: "is_word c \<Longrightarrow> is_word (to_upper c)"
  using to_upper_cases [of c] by (auto simp: is_word_def is_letter_def)

lemma word_not_space: "is_word c \<Longrightarrow> \<not> is_space c"
  by (auto simp: is_word_def is_letter_def is_upper_def is_lower_def is_digit_def is_space_def)

lemma trim_word:
  assumes "w \<noteq> []" and "list_all is_word w"
  shows "trim w = w"
proof -
  from assms have "\<not> is_space (hd w)"
    by (cases w) (auto simp: word_not_space)
  with assms(1) have front: "dropWhile is_space w = w"
    by (cases w) auto
  from assms have "\<not> is_space (last w)"
    by (simp add: list_all_iff word_not_space)
  with assms(1) have "dropWhile is_space (rev w) = rev w"
    by (cases "rev w") (auto simp: hd_rev)
  with front show ?thesis
    by (simp add: trim_def)
qed

lemma scan_SomeD: "scan m pw s = Some r \<Longrightarrow> \<exists>pw' s'. m pw' s' = Some r"
proof (induction s arbitrary: pw)
  case Nil
  then show ?case by auto
next
  case (Cons c cs)
  then show ?case
    by (cases "m pw (c # cs)") auto
qed

section \<open>Scenario A: a ranking question in a fresh session\<close>

lemma getContext_fresh:
  "sessionContexts st sid = None \<Longrightarrow>
   getContext sid st =
     (default_context, st\<lparr>sessionContexts := (sessionContexts st)(sid \<mapsto> default_context)\<rparr>)"
  by (simp add: getContext_def)

lemma dispatched_getContext: "dispatched (snd (getContext sid st)) = dispatched st"
  by (simp add: getContext_def split: option.splits)

lemma dispatched_updateContext: "dispatched (updateContext env sid result entities st) = dispatched st"
  by (simp add: updateContext_def getContext_def Let_def split: option.splits)

lemma enhance_first_question: "enhanceQuestionWithContext question default_context = question"
  by (simp add: enhanceQuestionWithContext_def default_context_def)

lemma california_entities:
  "extractEntitiesAndSource ''Show top 5 customers in California'' = \<lparr>geographic = Some ''California''\<rparr>"
  by code_simp

lemma california_year: "extractYear ''Show top 5 customers in California'' = None"
  by code_simp

lemma california_limit: "extractLimit ''Show top 5 customers in California'' = Some 5"
  by code_simp

lemma california_lower:
  "toLowerCase ''Show top 5 customers in California'' = ''show top 5 customers in california''"
  by code_simp

lemma california_keywords:
  "str_includes ''show top 5 customers in california'' ''compare'' = False"
  "str_includes ''show top 5 customers in california'' ''vs'' = False"
  "str_includes ''show top 5 customers in california'' ''versus'' = False"
  "str_includes ''show top 5 customers in california'' ''top'' = True"
  by code_simp+

lemma first_question_enhanced:
  assumes "history st sid = []"
  shows "enhanceQuestionWithContext question (fst (getContext sid st)) = question"
proof -
  have "questions (fst (getContext sid st)) = []"
    using assms by (simp add: getContext_def history_def default_context_def split: option.splits)
  then show ?thesis
    by (simp add: enhanceQuestionWithContext_def)
qed

lemma california_run:
  assumes "history st sid = []"
  shows "processQuestion env ''Show top 5 customers in California'' sid st =
     (let st2 = (snd (getContext sid st))\<lparr>dispatched := dispatched st @ [california_plan]\<rparr>
      in case executeQuery env california_plan of
           Inl e \<Rightarrow> (Inl e, st2)
         | Inr data \<Rightarrow>
             (let result = \<lparr>r_title = ''Top 5 Customers in California'', r_type = ''horizontal-bar'',
                            r_data = bar_data data, r_rawData = data, r_year = None\<rparr>
              in (Inr result, updateContext env sid result \<lparr>geographic = Some ''California''\<rparr> st2)))"
  by (simp add: processQuestion_def split_def first_question_enhanced [OF assms] california_entities
      california_year california_limit california_lower california_keywords dispatch_def
      ranking_plan_def california_plan_def state_filter_def year_filter_def state_suffix_def
      year_suffix_def show_nat.simps dispatched_getContext Let_def split: sum.splits)

lemma california_dispatched:
  assumes "history st sid = []"
  shows "dispatched (snd (processQuestion env ''Show top 5 customers in California'' sid st))
         = dispatched st @ [california_plan]"
  by (simp add: california_run [OF assms] Let_def dispatched_updateContext split: sum.splits)

lemma history_initial: "history initial_MCP s = []"
  by (simp add: history_def initial_MCP_def)

lemma one_row_env_executes:
  "executeQuery one_row_env plan = Inr [[''customer_name'' \<mapsto> JStr ''Ann'', ''total_sales'' \<mapsto> JStr ''10'']]"
  by (simp add: executeQuery_def one_row_env_def)

text \<open>
  Claim C1. The question "Show top 5 customers in California", asked in a session whose
  history is empty (no context yet, or a context with no question), with an executor
  that returns rows: the geographic entity is
  California; the plan handed to the executor selects \<open>customer_name\<close> and
  \<open>SUM(sales) as total_sales\<close> from \<open>orders\<close>, filters on \<open>state = 'California'\<close>,
  groups by \<open>customer_name\<close>, orders by \<open>total_sales DESC\<close> and limits to 5; and the
  result is a horizontal bar chart.
\<close>

theorem scenario_A_ranking_plan:
  assumes "history st sid = []"
    and "executeQuery env california_plan = Inr rows"
  shows "geographic (extractEntitiesAndSource ''Show top 5 customers in California'') = Some ''California''
       \<and> dispatched (snd (processQuestion env ''Show top 5 customers in California'' sid st))
           = dispatched st @
              [\<lparr>p_select = [''customer_name'', ''SUM(sales) as total_sales''],
                p_from = ''orders'',
                p_where = [''state = '' @ sq @ ''California'' @ sq],
                p_groupBy = [''customer_name''],
                p_orderBy = [''total_sales DESC''],
                p_limit = Some 5\<rparr>]
       \<and> (\<exists>result. fst (processQuestion env ''Show top 5 customers in California'' sid st) = Inr result
             \<and> r_type result = ''horizontal-bar'')"
proof -
  have "dispatched (snd (processQuestion env ''Show top 5 customers in California'' sid st))
        = dispatched st @ [california_plan]"
    using assms(1) by (rule california_dispatched)
  moreover have "\<exists>result. fst (processQuestion env ''Show top 5 customers in California'' sid st) = Inr result
             \<and> r_type result = ''horizontal-bar''"
    using assms(2) by (simp add: california_run [OF assms(1)] Let_def)
  ultimately show ?thesis
    by (simp add: california_entities california_plan_def)
qed

text \<open>The scenario on a new object, with a database that answers with one row.\<close>

theorem scenario_A_ranking_plan_witness:
  "geographic (extractEntitiesAndSource ''Show top 5 customers in California'') = Some ''California''
   \<and> dispatched (snd (processQuestion one_row_env ''Show top 5 customers in California'' ''s1'' initial_MCP))
       = [\<lparr>p_select = [''customer_name'', ''SUM(sales) as total_sales''],
           p_from = ''orders'',
           p_where = [''state = '' @ sq @ ''California'' @ sq],
           p_groupBy = [''customer_name''],
           p_orderBy = [''total_sales DESC''],
           p_limit = Some 5\<rparr>]
   \<and> (\<exists>result. fst (processQuestion one_row_env ''Show top 5 customers in California'' ''s1'' initial_MCP)
                  = Inr result
         \<and> r_type result = ''horizontal-bar'')"
proof -
  have empty: "dispatched initial_MCP = []"
    by (simp add: initial_MCP_def)
  show ?thesis
    using scenario_A_ranking_plan [OF history_initial one_row_env_executes] empty by simp
qed

section \<open>What reaches the executor\<close>

lemma initial_fresh: "sessionContexts initial_MCP sid = None"
  by (simp add: initial_MCP_def)

lemma initial_dispatched: "dispatched initial_MCP = []"
  by (simp add: initial_MCP_def)

lemma california_plan_sanitized:
  "sanitizeQueryPlan california_plan = california_plan\<lparr>p_orderBy := []\<rparr>"
  by code_simp

text \<open>
  Claim C2 says that every plan passes through \<open>sanitizeQueryPlan\<close> before it is
  executed. \<open>processQuestion\<close> never calls the sanitizer: the plan that reaches the
  executor for "Show top 5 customers in California" is the plan as built, and it is not
  a plan the sanitizer lets through unchanged, since the sanitizer strips the ordering
  \<open>total_sales DESC\<close>, whose base field is an alias and no schema field.
\<close>

theorem dispatched_plan_is_not_sanitized:
  "dispatched (snd (processQuestion env ''Show top 5 customers in California'' sid initial_MCP))
     = [california_plan]
   \<and> p_orderBy california_plan = [''total_sales DESC'']
   \<and> p_orderBy (sanitizeQueryPlan california_plan) = []
   \<and> sanitizeQueryPlan california_plan \<noteq> california_plan"
proof -
  have "dispatched (snd (processQuestion env ''Show top 5 customers in California'' sid initial_MCP))
        = [california_plan]"
    using california_dispatched [OF history_initial, where env = env and sid = sid]
    by (simp add: initial_dispatched)
  moreover have built: "p_orderBy california_plan = [''total_sales DESC'']"
    by (simp add: california_plan_def)
  moreover have stripped: "p_orderBy (sanitizeQueryPlan california_plan) = []"
    by (simp add: california_plan_sanitized)
  moreover have "sanitizeQueryPlan california_plan \<noteq> california_plan"
  proof
    assume "sanitizeQueryPlan california_plan = california_plan"
    then have "p_orderBy (sanitizeQueryPlan california_plan) = p_orderBy california_plan"
      by simp
    with built stripped show False
      by simp
  qed
  ultimately show ?thesis
    by simp
qed

lemma drop_table_entities:
  "extractEntitiesAndSource ''DROP TABLE orders;'' = \<lparr>geographic = None\<rparr>"
  by code_simp

lemma drop_table_year: "extractYear ''DROP TABLE orders;'' = None"
  by code_simp

lemma drop_table_lower: "toLowerCase ''DROP TABLE orders;'' = ''drop table orders;''"
  by code_simp

lemma drop_table_keywords:
  "str_includes ''drop table orders;'' ''compare'' = False"
  "str_includes ''drop table orders;'' ''vs'' = False"
  "str_includes ''drop table orders;'' ''versus'' = False"
  "str_includes ''drop table orders;'' ''top'' = False"
  by code_simp+

text \<open>
  The validator by itself: it accepts exactly the texts of 3 to 500 characters in which
  the injection pattern finds nothing, and a semicolon anywhere is found.
\<close>

lemma no_unit_match: "(x :: unit option) \<noteq> Some () \<longleftrightarrow> x = None"
  by (cases x) auto

lemma validateQuestion_accepts_iff:
  "validateQuestion v = Inr () \<longleftrightarrow>
     (\<exists>s. v = Some (JStr s) \<and> 3 \<le> length s \<and> length s \<le> 500
          \<and> scan injection_match False s = None)"
proof (cases v)
  case None
  then show ?thesis by (simp add: validateQuestion_def)
next
  case (Some x)
  then show ?thesis
    by (cases x) (auto simp: validateQuestion_def no_unit_match)
qed

lemma semicolon_is_found: "CHR '';'' \<in> set s \<Longrightarrow> scan injection_match pw s \<noteq> None"
proof (induction s arbitrary: pw)
  case Nil
  then show ?case by simp
next
  case (Cons c cs)
  show ?case
  proof (cases "c = CHR '';''")
    case True
    then show ?thesis
      by (simp add: injection_match_def)
  next
    case False
    with Cons.prems have "CHR '';'' \<in> set cs" by simp
    then have "scan injection_match (is_word c) cs \<noteq> None"
      by (rule Cons.IH)
    then show ?thesis
      by (cases "injection_match pw (c # cs)") simp_all
  qed
qed

lemma drop_table_validation:
  "validateQuestion (Some (JStr ''DROP TABLE orders;'')) = Inl (Error ''Invalid question content'')"
  by code_simp

lemma trend_plan_unfiltered: "trend_plan \<lparr>geographic = None\<rparr> = unfiltered_trend_plan"
  by (simp add: trend_plan_def unfiltered_trend_plan_def state_filter_def)

lemma drop_table_dispatched:
  "dispatched (snd (processQuestion env ''DROP TABLE orders;'' sid initial_MCP)) = [unfiltered_trend_plan]"
  by (simp add: processQuestion_def getContext_fresh initial_fresh enhance_first_question
      drop_table_entities drop_table_year drop_table_lower drop_table_keywords dispatch_def
      trend_plan_unfiltered initial_dispatched dispatched_updateContext Let_def
      split: sum.splits option.splits)

text \<open>
  Claim C3 says that "DROP TABLE orders;" is rejected by validation and that no plan is
  built for it. \<open>validateQuestion\<close> does reject the text, but \<open>processQuestion\<close> never
  calls it: the question runs through extraction, falls into the trend branch, and the
  unfiltered monthly trend plan is handed to the executor.
\<close>

theorem drop_table_reaches_executor:
  "validateQuestion (Some (JStr ''DROP TABLE orders;'')) = Inl (Error ''Invalid question content'')
   \<and> dispatched (snd (processQuestion env ''DROP TABLE orders;'' sid initial_MCP))
       = [\<lparr>p_select = [''DATE_TRUNC('month', order_date) as month'', ''SUM(sales) as total_sales''],
           p_from = ''orders'',
           p_where = [],
           p_groupBy = [''DATE_TRUNC('month', order_date)''],
           p_orderBy = [''month ASC''],
           p_limit = None\<rparr>]"
  using drop_table_validation drop_table_dispatched [of env sid]
  by (simp add: unfiltered_trend_plan_def)

section \<open>Scenario C: a trend question with a year\<close>

lemma trend_2017_entities:
  "extractEntitiesAndSource ''Show sales trend for 2017'' = \<lparr>geographic = None\<rparr>"
  by code_simp

lemma trend_2017_year: "extractYear ''Show sales trend for 2017'' = Some 2017"
  by code_simp

lemma trend_2017_lower: "toLowerCase ''Show sales trend for 2017'' = ''show sales trend for 2017''"
  by code_simp

lemma trend_2017_keywords:
  "str_includes ''show sales trend for 2017'' ''compare'' = False"
  "str_includes ''show sales trend for 2017'' ''vs'' = False"
  "str_includes ''show sales trend for 2017'' ''versus'' = False"
  "str_includes ''show sales trend for 2017'' ''top'' = False"
  by code_simp+

lemma trend_2017_dispatched:
  "dispatched (snd (processQuestion env ''Show sales trend for 2017'' sid initial_MCP))
   = [unfiltered_trend_plan]"
  by (simp add: processQuestion_def getContext_fresh initial_fresh enhance_first_question
      trend_2017_entities trend_2017_year trend_2017_lower trend_2017_keywords dispatch_def
      trend_plan_unfiltered initial_dispatched dispatched_updateContext Let_def
      split: sum.splits option.splits)

lemma year_filter_2017: "year_filter (Some 2017) = [''EXTRACT(YEAR FROM order_date) = 2017'']"
  by (simp add: year_filter_def show_nat.simps)

text \<open>
  Claim C7 says that the trend plan of "Show sales trend for 2017" carries the year
  filter. The year 2017 is extracted, and the ranking and comparison branches would add
  \<open>year_filter\<close> to their conditions, but the trend branch builds its conditions from
  the geographic entity alone: the plan that is executed has an empty \<open>where\<close> list,
  grouped by month, ordered by month ascending, with no limit.
\<close>

theorem trend_2017_plan_has_no_year_filter:
  "extractYear ''Show sales trend for 2017'' = Some 2017
   \<and> year_filter (extractYear ''Show sales trend for 2017'') = [''EXTRACT(YEAR FROM order_date) = 2017'']
   \<and> dispatched (snd (processQuestion env ''Show sales trend for 2017'' sid initial_MCP))
       = [\<lparr>p_select = [''DATE_TRUNC('month', order_date) as month'', ''SUM(sales) as total_sales''],
           p_from = ''orders'',
           p_where = [],
           p_groupBy = [''DATE_TRUNC('month', order_date)''],
           p_orderBy = [''month ASC''],
           p_limit = None\<rparr>]"
  using trend_2017_dispatched [of env sid]
  by (simp add: trend_2017_year year_filter_2017 unfiltered_trend_plan_def)

section \<open>The priority of the comparison branch\<close>

lemma texas_ohio_lower:
  "toLowerCase ''compare top customers in Texas and Ohio'' = ''compare top customers in texas and ohio''"
  by code_simp

lemma texas_ohio_keywords:
  "str_includes ''compare top customers in texas and ohio'' ''compare'' = True"
  "str_includes ''compare top customers in texas and ohio'' ''top'' = True"
  "str_includes ''compare top customers in texas and ohio'' ''in'' = True"
  "str_includes ''compare top customers in texas and ohio'' ''how about'' = False"
  by code_simp+

lemma texas_ohio_states: "extractComparisonStates ''compare top customers in Texas and Ohio'' = []"
  by code_simp

lemma texas_ohio_enhanced:
  "enhanceQuestionWithContext ''compare top customers in Texas and Ohio'' context
   = ''compare top customers in Texas and Ohio''"
  by (simp add: enhanceQuestionWithContext_def texas_ohio_lower texas_ohio_keywords Let_def)

lemma texas_ohio_run:
  "processQuestion env ''compare top customers in Texas and Ohio'' sid st
   = (Inl (Error ''Could not identify states to compare''), snd (getContext sid st))"
  by (simp add: processQuestion_def texas_ohio_enhanced texas_ohio_lower texas_ohio_keywords
      texas_ohio_states Let_def split_def)

text \<open>
  Claim C6. The question "compare top customers in Texas and Ohio" holds both triggers,
  \<open>compare\<close> and \<open>top\<close>. In every session and with every executor, \<open>processQuestion\<close>
  takes the comparison branch, which is tested first: the outcome is the error of that
  branch (the text has no "X vs Y" or "between X and Y" phrase to take two states from),
  and no plan is handed to the executor, so no ranking plan is built.
\<close>

theorem compare_wins_over_top:
  "str_includes (toLowerCase ''compare top customers in Texas and Ohio'') ''compare''
   \<and> str_includes (toLowerCase ''compare top customers in Texas and Ohio'') ''top''
   \<and> fst (processQuestion env ''compare top customers in Texas and Ohio'' sid st)
       = Inl (Error ''Could not identify states to compare'')
   \<and> dispatched (snd (processQuestion env ''compare top customers in Texas and Ohio'' sid st))
       = dispatched st"
  by (simp add: texas_ohio_run texas_ohio_lower texas_ohio_keywords dispatched_getContext)

section \<open>The sanitizer\<close>







lemma before_first_nil: "before_first '' as '' [] = []"
  by simp







lemma first_token_word:
  assumes "list_all is_word f"
  shows "first_token (f @ CHR '' '' # rest) = f"
proof -
  have "takeWhile (\<lambda>c. \<not> is_space c) (f @ CHR '' '' # rest)
        = f @ takeWhile (\<lambda>c. \<not> is_space c) (CHR '' '' # rest)"
    by (rule takeWhile_append2) (use assms in \<open>auto simp: list_all_iff word_not_space\<close>)
  moreover have "is_space (CHR '' '')"
    by (simp add: is_space_def)
  ultimately show ?thesis
    by (simp add: first_token_def)
qed



















section \<open>The state entity: analyzer and orchestrator\<close>



















section \<open>The session history\<close>

lemma history_updateContext:
  "history (updateContext env sid result entities st) sid' =
     (if sid' = sid
      then (if length (history st sid) \<ge> 5
            then tl (history st sid @ [history_entry env result])
            else history st sid @ [history_entry env result])
      else history st sid')"
  by (simp add: updateContext_def getContext_def history_def history_entry_def default_context_def
      Let_def split: option.splits)

lemma history_updateContext_capped:
  assumes "\<And>s. length (history st s) \<le> 5"
  shows "length (history (updateContext env sid result entities st) s) \<le> 5"
  using assms [of s] assms [of sid] by (simp add: history_updateContext)

lemma history_apply_updates_capped:
  "(\<And>s. length (history st s) \<le> 5) \<Longrightarrow> length (history (apply_updates calls st) s) \<le> 5"
proof (induction calls arbitrary: st)
  case Nil
  then show ?case by simp
next
  case (Cons call calls)
  obtain env sid result entities where call: "call = (env, sid, result, entities)"
    by (cases call) auto
  have "\<And>s. length (history (updateContext env sid result entities st) s) \<le> 5"
    using Cons.prems by (rule history_updateContext_capped)
  then show ?case
    using Cons.IH call by simp
qed

text \<open>
  Claim C8. After any sequence of \<open>updateContext\<close> calls on a new object, whatever the
  sessions, results and entities, the history of every session has at most 5 entries;
  and six consecutive calls on a session whose history was empty leave exactly the
  entries of the second to the sixth call, in this order: the first entry is the one
  evicted.
\<close>

theorem history_capped_at_five:
  "length (history (apply_updates calls initial_MCP) sid) \<le> 5
   \<and> (history st sid = [] \<longrightarrow>
        history (apply_updates
                   [(e1, sid, r1, g1), (e2, sid, r2, g2), (e3, sid, r3, g3),
                    (e4, sid, r4, g4), (e5, sid, r5, g5), (e6, sid, r6, g6)] st) sid
        = [history_entry e2 r2, history_entry e3 r3, history_entry e4 r4,
           history_entry e5 r5, history_entry e6 r6])"
proof
  show "length (history (apply_updates calls initial_MCP) sid) \<le> 5"
    by (rule history_apply_updates_capped) (simp add: history_initial)
next
  show "history st sid = [] \<longrightarrow>
        history (apply_updates
                   [(e1, sid, r1, g1), (e2, sid, r2, g2), (e3, sid, r3, g3),
                    (e4, sid, r4, g4), (e5, sid, r5, g5), (e6, sid, r6, g6)] st) sid
        = [history_entry e2 r2, history_entry e3 r3, history_entry e4 r4,
           history_entry e5 r5, history_entry e6 r6]"
  proof
    assume "history st sid = []"
    then show "history (apply_updates
                   [(e1, sid, r1, g1), (e2, sid, r2, g2), (e3, sid, r3, g3),
                    (e4, sid, r4, g4), (e5, sid, r5, g5), (e6, sid, r6, g6)] st) sid
        = [history_entry e2 r2, history_entry e3 r3, history_entry e4 r4,
           history_entry e5 r5, history_entry e6 r6]"
      by (simp add: history_updateContext)
  qed
qed


text \<open>
  A call of \<open>processQuestion\<close> changes the histories through \<open>getContext\<close> and
  \<open>updateContext\<close> alone, so it keeps the bound as well.
\<close>

lemma history_getContext: "history (snd (getContext sid st)) s = history st s"
  by (simp add: getContext_def history_def default_context_def split: option.splits)

lemma history_dispatched_update: "history (st\<lparr>dispatched := plans\<rparr>) s = history st s"
  by (simp add: history_def)

lemma processQuestion_history_capped:
  assumes "\<And>s. length (history st s) \<le> 5"
  shows "length (history (snd (processQuestion env question sid st)) s) \<le> 5"
proof -
  obtain ctx st1 where g: "getContext sid st = (ctx, st1)"
    by (cases "getContext sid st") auto
  have st1: "\<And>s. history st1 s = history st s"
    using history_getContext [of sid st] g by simp
  show ?thesis
    using assms [of s] assms [of sid]
    by (simp add: processQuestion_def g Let_def dispatch_def history_updateContext
        history_dispatched_update st1 split: sum.splits option.splits)
qed

text \<open>
  Six updates of the session \<open>s1\<close> on a new object: five entries remain, the first
  title is gone.
\<close>

theorem history_capped_at_five_witness:
  "history initial_MCP ''s1'' = []
   \<and> map h_question
         (history (apply_updates
                     [(one_row_env, ''s1'', titled_result ''q1'', \<lparr>geographic = None\<rparr>),
                      (one_row_env, ''s1'', titled_result ''q2'', \<lparr>geographic = None\<rparr>),
                      (one_row_env, ''s1'', titled_result ''q3'', \<lparr>geographic = None\<rparr>),
                      (one_row_env, ''s1'', titled_result ''q4'', \<lparr>geographic = None\<rparr>),
                      (one_row_env, ''s1'', titled_result ''q5'', \<lparr>geographic = None\<rparr>),
                      (one_row_env, ''s1'', titled_result ''q6'', \<lparr>geographic = None\<rparr>)]
                     initial_MCP) ''s1'')
       = [''q2'', ''q3'', ''q4'', ''q5'', ''q6'']"
proof -
  have fresh: "history initial_MCP ''s1'' = []"
    by (rule history_initial)
  show ?thesis
    using fresh
      history_capped_at_five [where st = initial_MCP and sid = "''s1''" and calls = "[]"
        and ?e1.0 = one_row_env and ?e2.0 = one_row_env and ?e3.0 = one_row_env
        and ?e4.0 = one_row_env and ?e5.0 = one_row_env and ?e6.0 = one_row_env
        and ?r1.0 = "titled_result ''q1''" and ?r2.0 = "titled_result ''q2''"
        and ?r3.0 = "titled_result ''q3''" and ?r4.0 = "titled_result ''q4''"
        and ?r5.0 = "titled_result ''q5''" and ?r6.0 = "titled_result ''q6''"
        and ?g1.0 = "\<lparr>geographic = None\<rparr>" and ?g2.0 = "\<lparr>geographic = None\<rparr>"
        and ?g3.0 = "\<lparr>geographic = None\<rparr>" and ?g4.0 = "\<lparr>geographic = None\<rparr>"
        and ?g5.0 = "\<lparr>geographic = None\<rparr>" and ?g6.0 = "\<lparr>geographic = None\<rparr>"]
    by (simp add: history_entry_def titled_result_def)
qed

section \<open>The chart decision tree\<close>

text \<open>
  The characteristics that feed the tree: no rows give the all-zero record, and there
  are never more categories than records.
\<close>

lemma characteristics_of_no_data:
  "analyzeDataCharacteristics [] =
     \<lparr>recordCount = 0, hasTimeComponent = False, uniqueCategories = 0, isHierarchical = False\<rparr>"
  by (simp add: analyzeDataCharacteristics_def)

lemma uniqueCategories_le_recordCount:
  "uniqueCategories (analyzeDataCharacteristics data) \<le> recordCount (analyzeDataCharacteristics data)"
proof (cases "data = []")
  case True
  then show ?thesis
    by (simp add: analyzeDataCharacteristics_def)
next
  case False
  let ?key = "\<lambda>row :: DataRow. js_or (js_or (row ''category'') (row ''customer_name'')) (row ''name'')"
  have "length (remdups (map ?key data)) \<le> length (map ?key data)"
    by (rule length_remdups_leq)
  with False show ?thesis
    by (simp add: analyzeDataCharacteristics_def)
qed

lemma least_root_from_covers: "n \<le> least_root_from k n * least_root_from k n"
proof (induction k n rule: least_root_from.induct)
  case (1 k n)
  then show ?case
    by (cases "n \<le> k * k") (simp_all add: least_root_from.simps [of k n])
qed

lemma least_root_from_least:
  "k \<le> j \<Longrightarrow> n \<le> j * j \<Longrightarrow> least_root_from k n \<le> j"
proof (induction k n rule: least_root_from.induct)
  case (1 k n)
  show ?case
  proof (cases "n \<le> k * k")
    case True
    with "1.prems" show ?thesis
      by (simp add: least_root_from.simps [of k n])
  next
    case False
    have "k \<noteq> j"
      using False "1.prems"(2) by auto
    with "1.prems"(1) have "Suc k \<le> j" by simp
    with "1.IH" False "1.prems"(2) show ?thesis
      by (simp add: least_root_from.simps [of k n])
  qed
qed

lemma ceil_sqrt_covers: "n \<le> ceil_sqrt n * ceil_sqrt n"
  by (simp add: ceil_sqrt_def least_root_from_covers)

lemma ceil_sqrt_least: "n \<le> j * j \<Longrightarrow> ceil_sqrt n \<le> j"
  by (simp add: ceil_sqrt_def least_root_from_least)

lemma ceil_sqrt_real: "ceil_sqrt n = nat \<lceil>sqrt (real n)\<rceil>"
proof -
  let ?r = "ceil_sqrt n"
  have upper: "sqrt (real n) \<le> real ?r"
  proof -
    have "real n \<le> real (?r * ?r)"
      using ceil_sqrt_covers [of n] by (simp only: of_nat_le_iff)
    then have "real n \<le> real ?r * real ?r"
      by simp
    then have "real n \<le> (real ?r)\<^sup>2"
      by (simp add: power2_eq_square)
    then show ?thesis
      by (simp add: real_le_lsqrt)
  qed
  have lower: "real ?r - 1 < sqrt (real n)"
  proof (cases "?r = 0")
    case True
    have "0 \<le> sqrt (real n)" by simp
    then have "- 1 < sqrt (real n)" by linarith
    with True show ?thesis by simp
  next
    case False
    then obtain j where j: "?r = Suc j"
      by (cases "?r") auto
    have "\<not> n \<le> j * j"
      using ceil_sqrt_least [of n j] j by auto
    then have "j * j < n" by simp
    then have "real (j * j) < real n"
      by (simp only: of_nat_less_iff)
    then have "real j * real j < real n"
      by simp
    then have "(real j)\<^sup>2 < real n"
      by (simp add: power2_eq_square)
    then have "real j < sqrt (real n)"
      by (simp add: real_less_rsqrt)
    with j show ?thesis by simp
  qed
  have "\<lceil>sqrt (real n)\<rceil> = int ?r"
    by (rule ceiling_unique) (use upper lower in simp_all)
  then show ?thesis by simp
qed

text \<open>
  Claim C9, as amended. When the distribution flag of the question type is set, the data
  has more than 10 unique categories, and no earlier rule of the decision tree applies
  (the question is not a comparison with subtype \<open>ranking\<close> or \<open>timeBased\<close>, and not a
  trend over data with a time component), \<open>selectVisualization\<close> returns a histogram
  whose only configuration entry is \<open>bins = min(20, ceil(sqrt(recordCount)))\<close>, the
  square root and the ceiling being those of the real numbers.
\<close>

theorem histogram_when_no_earlier_rule:
  assumes "distribution visType"
    and "uniqueCategories dataCharacteristics > 10"
    and "\<not> (comparison visType \<and> (subType visType = Some ''ranking'' \<or> subType visType = Some ''timeBased''))"
    and "\<not> (trend visType \<and> hasTimeComponent dataCharacteristics)"
  shows "selectVisualization visType dataCharacteristics =
           \<lparr>v_type = ''histogram'', v_orientation = None,
            v_config = [(''bins'', CNum (min 20 (nat \<lceil>sqrt (real (recordCount dataCharacteristics))\<rceil>)))]\<rparr>"
  using assms by (auto simp: selectVisualization_def ceil_sqrt_real)

lemma ceil_sqrt_100: "ceil_sqrt 100 = 10"
  by code_simp

text \<open>
  With 15 unique categories and 100 records the histogram has 10 bins.
\<close>

theorem histogram_when_no_earlier_rule_witness:
  "distribution distribution_only
   \<and> uniqueCategories sample_characteristics > 10
   \<and> \<not> (comparison distribution_only
          \<and> (subType distribution_only = Some ''ranking'' \<or> subType distribution_only = Some ''timeBased''))
   \<and> \<not> (trend distribution_only \<and> hasTimeComponent sample_characteristics)
   \<and> selectVisualization distribution_only sample_characteristics =
        \<lparr>v_type = ''histogram'', v_orientation = None, v_config = [(''bins'', CNum 10)]\<rparr>"
proof -
  have d: "distribution distribution_only"
    by (simp add: distribution_only_def)
  have u: "uniqueCategories sample_characteristics > 10"
    by (simp add: sample_characteristics_def)
  have c: "\<not> (comparison distribution_only
          \<and> (subType distribution_only = Some ''ranking'' \<or> subType distribution_only = Some ''timeBased''))"
    by (simp add: distribution_only_def)
  have t: "\<not> (trend distribution_only \<and> hasTimeComponent sample_characteristics)"
    by (simp add: distribution_only_def)
  have bins: "min 20 (nat \<lceil>sqrt (real (recordCount sample_characteristics))\<rceil>) = 10"
    using ceil_sqrt_real [of 100, symmetric] by (simp add: sample_characteristics_def ceil_sqrt_100)
  show ?thesis
    using histogram_when_no_earlier_rule [OF d u c t] d u c t bins by simp
qed

text \<open>
  Claim C9 as stated fails: the question "what is the distribution of top customers" sets
  the distribution flag, and with 15 unique categories in 100 records the chart is a bar
  chart, because the question is also a comparison with subtype \<open>ranking\<close> and that rule
  comes first.
\<close>

theorem ranked_distribution_question_counterexample:
  "distribution (analyzeQuestionType ''what is the distribution of top customers'')
   \<and> uniqueCategories sample_characteristics > 10
   \<and> v_type (selectVisualization (analyzeQuestionType ''what is the distribution of top customers'')
                sample_characteristics) = ''bar''"
  by code_simp


section \<open>The states of a comparison\<close>

lemma capitalize_word:
  assumes "w \<noteq> []" and "list_all is_word w"
  shows "title_cased_word (capitalize w)"
proof -
  from assms(1) obtain c cs where w: "w = c # cs"
    by (cases w) auto
  have "capitalize w = to_upper c # toLowerCase cs"
    using assms w by (simp add: capitalize_def trim_word)
  moreover have "list_all is_word (toLowerCase cs)"
    using assms(2) w by (simp add: toLowerCase_def list_all_iff is_word_to_lower)
  moreover have "list_all (\<lambda>c. \<not> is_upper c) (toLowerCase cs)"
    by (simp add: toLowerCase_def list_all_iff to_lower_not_upper)
  moreover have "is_word (to_upper c)"
    using assms(2) w by (simp add: is_word_to_upper)
  ultimately show ?thesis
    by (simp add: title_cased_word_def to_upper_not_lower)
qed

lemma take_word_SomeD: "take_word s = Some (w, r) \<Longrightarrow> w \<noteq> [] \<and> list_all is_word w"
  by (auto simp: take_word_def list_all_iff split: if_splits dest: set_takeWhileD)

lemma vs_match_SomeD:
  "vs_match pw s = Some (a, b) \<Longrightarrow> a \<noteq> [] \<and> list_all is_word a \<and> b \<noteq> [] \<and> list_all is_word b"
  by (auto simp: vs_match_def split: Option.bind_splits dest!: take_word_SomeD)

lemma between_match_SomeD:
  "between_match pw s = Some (a, b) \<Longrightarrow> a \<noteq> [] \<and> list_all is_word a \<and> b \<noteq> [] \<and> list_all is_word b"
  by (auto simp: between_match_def split: Option.bind_splits dest!: take_word_SomeD)

lemma new_york_vs: "extractComparisonStates ''New York vs New Jersey'' = [''York'', ''New'']"
  by code_simp

lemma new_york_between: "extractComparisonStates ''between New York and New Jersey'' = []"
  by code_simp

lemma texas_new_york_between: "extractComparisonStates ''between Texas and New York'' = [''Texas'', ''New'']"
  by code_simp

text \<open>
  Claim C10, as amended. For every question, \<open>extractComparisonStates\<close> returns either
  no name or exactly two names, and each name is one word token in title case. A state
  name of several words is cut to the word next to the keyword where the pattern matches:
  "New York vs New Jersey" gives York and New, "between Texas and New York" gives Texas
  and New.
\<close>

theorem comparison_states_are_single_words:
  "(extractComparisonStates question = []
     \<or> (\<exists>a b. extractComparisonStates question = [a, b] \<and> title_cased_word a \<and> title_cased_word b))
   \<and> extractComparisonStates ''New York vs New Jersey'' = [''York'', ''New'']
   \<and> extractComparisonStates ''between Texas and New York'' = [''Texas'', ''New'']"
proof -
  let ?q = "toLowerCase question"
  have general: "extractComparisonStates question = []
     \<or> (\<exists>a b. extractComparisonStates question = [a, b] \<and> title_cased_word a \<and> title_cased_word b)"
  proof (cases "scan between_match False ?q")
    case (Some ab)
    obtain a b where ab: "ab = (a, b)" by (cases ab) auto
    from Some ab obtain pw s where "between_match pw s = Some (a, b)"
      using scan_SomeD [of between_match False ?q "(a, b)"] by auto
    then have "title_cased_word (capitalize a) \<and> title_cased_word (capitalize b)"
      using between_match_SomeD capitalize_word by blast
    then show ?thesis
      using Some ab by (simp add: extractComparisonStates_def Let_def)
  next
    case None
    show ?thesis
    proof (cases "scan vs_match False ?q")
      case (Some ab)
      obtain a b where ab: "ab = (a, b)" by (cases ab) auto
      from Some ab obtain pw s where "vs_match pw s = Some (a, b)"
        using scan_SomeD [of vs_match False ?q "(a, b)"] by auto
      then have "title_cased_word (capitalize a) \<and> title_cased_word (capitalize b)"
        using vs_match_SomeD capitalize_word by blast
      then show ?thesis
        using Some ab None by (simp add: extractComparisonStates_def Let_def)
    next
      case None2: None
      with None show ?thesis
        by (simp add: extractComparisonStates_def Let_def)
    qed
  qed
  then show ?thesis
    by (simp add: new_york_vs texas_new_york_between)
qed

text \<open>
  Claim C10 as stated fails in its example: "between New York and New Jersey" does not
  give York and New. The pattern wants one word between \<open>between\<close> and \<open>and\<close>, there
  are two, and no name is returned.
\<close>

theorem between_new_york_counterexample:
  "extractComparisonStates ''between New York and New Jersey'' = []"
  by (rule new_york_between)


end
